theory Spec2Isabelle
  imports Main "HOL-Library.Countable"
begin

section \<open>The memoc allocator toolkit (include/memoc/allocators.h)\<close>

text \<open>
  The policies of \<^verbatim>\<open>allocators.h\<close> are class templates that are stacked at compile
  time. A template instantiation is a value of the datatype \<open>policy\<close> (the template
  arguments), an object of that class is a value of the datatype \<open>inst\<close> (the data
  members), and everything outside the object that the member functions touch is the
  record \<open>world\<close>. Each member function is a HOL function that takes the instance and
  the world and returns the new instance and the new world next to its result; the
  member functions of a composing policy take the member functions of the policies
  they are instantiated with as arguments, as the templates do.

  \<open>Block<void>::Size_type\<close> is \<open>std::int64_t\<close>. Sizes are modelled as \<open>int\<close>. The
  statistics layer negates and adds sizes that its caller chooses: there the
  wrap-around of 64-bit two's complement is written out (\<open>int64\<close>). Elsewhere the
  model and the code agree on every run in which no sum leaves the 64-bit range.
  Addresses are \<open>int\<close> as well, with \<open>0\<close> for \<open>nullptr\<close>, so that the pointer
  arithmetic of the arena is exact.
\<close>

subsection \<open>Block (memoc/blocks.h)\<close>

text \<open>
  Modelled from the spec: \<^verbatim>\<open>memoc/blocks.h\<close> is not among the sources. A Block is
  a size and an address.
\<close>

record block =
  bsize :: int
  bdata :: int

text \<open>
  Modelled from the spec: the default constructor \<open>Block()\<close>, which the source also
  writes \<open>{}\<close>, gives the empty Block \<open>(0, null)\<close>.
\<close>

definition Block_default :: block where
  "Block_default = \<lparr>bsize = 0, bdata = 0\<rparr>"

text \<open>
  Modelled from the spec: \<open>Block::empty()\<close> is true iff the size is zero or the
  address is null.
\<close>

definition Block_empty :: "block \<Rightarrow> bool" where
  "Block_empty b = (bsize b = 0 \<or> bdata b = 0)"

subsection \<open>Template instantiations, objects and their environment\<close>

datatype policy =
    Malloc_allocator
  | Stack_allocator int
  | Fallback_allocator policy policy
  | Free_list_allocator policy int int int
  | Stats_allocator policy int
  | Shared_allocator policy int

text \<open>
  The data members of each class: \<open>Stack_i d_ p_\<close> (the address of the embedded
  buffer and the bump pointer), \<open>Fallback_i\<close> (the two base sub-objects),
  \<open>Free_list_i\<close> (the base sub-object, \<open>root_\<close>, \<open>list_size_\<close>), \<open>Stats_i\<close> (the base
  sub-object, \<open>number_of_records_\<close>, \<open>total_allocated_\<close>, \<open>root_\<close>, \<open>tail_\<close>).
  \<open>Malloc_allocator\<close> and \<open>Shared_allocator\<close> have no non-static data members.
\<close>

datatype inst =
    Malloc_i
  | Stack_i int int
  | Fallback_i inst inst
  | Free_list_i inst int int
  | Stats_i inst int int int int
  | Shared_i

text \<open>\<open>Stats_allocator::Record\<close>; \<open>link\<close> is its member \<open>next\<close>.\<close>

record stats_record =
  record_address :: int
  request_address :: int
  amount :: int
  time :: nat
  link :: int

datatype heap_event = Malloc_call int int | Free_call int

text \<open>
  The environment. \<open>std::malloc\<close> is the platform's: \<open>malloc_answers\<close> is the sequence
  of addresses its next calls return (\<open>0\<close> for a failed call, and every call fails once
  the sequence is used up), so that a statement about every world is a statement about
  every behaviour of the platform heap. \<open>heap_trace\<close> logs the calls that reached the
  platform heap, latest first. \<open>node_next\<close> and \<open>record_at\<close> are the memory as the
  free list and the statistics layer see it: the \<open>next\<close> member of the
  \<open>Free_list_allocator::Node\<close> at an address, and the \<open>Record\<close> at an address.
  \<open>clock\<close> is what \<open>std::chrono::system_clock::now()\<close> answers. \<open>shared\<close> holds the
  static member \<open>allocator_\<close> of every instantiation \<open>Shared_allocator<I, id>\<close>.
  \<open>crashed\<close> is set when a member function dereferences \<open>nullptr\<close>: the process does
  not survive that, and what the model returns next to a set \<open>crashed\<close> stands for
  nothing. No member function clears it.
\<close>

record world =
  malloc_answers :: "int list"
  heap_trace :: "heap_event list"
  node_next :: "int \<Rightarrow> int"
  record_at :: "int \<Rightarrow> stats_record"
  clock :: nat
  shared :: "policy \<times> int \<Rightarrow> inst"
  crashed :: bool

definition std_malloc :: "world \<Rightarrow> int \<Rightarrow> int \<times> world" where
  "std_malloc w s =
     (case malloc_answers w of
        [] \<Rightarrow> (0, w\<lparr>heap_trace := Malloc_call s 0 # heap_trace w\<rparr>)
      | a # as \<Rightarrow> (a, w\<lparr>malloc_answers := as, heap_trace := Malloc_call s a # heap_trace w\<rparr>))"

text \<open>\<open>std::free(nullptr)\<close> does nothing.\<close>

definition std_free :: "int \<Rightarrow> world \<Rightarrow> world" where
  "std_free p w = (if p = 0 then w else w\<lparr>heap_trace := Free_call p # heap_trace w\<rparr>)"

type_synonym allocate_fn = "inst \<Rightarrow> world \<Rightarrow> int \<Rightarrow> block \<times> inst \<times> world"
type_synonym deallocate_fn = "inst \<Rightarrow> world \<Rightarrow> block \<Rightarrow> block \<times> inst \<times> world"
type_synonym owns_fn = "inst \<Rightarrow> world \<Rightarrow> block \<Rightarrow> bool"

text \<open>
  \<open>deallocate\<close> takes the caller's Block by reference: the first component of its
  result is the caller's Block on return. In every function the last equation is for
  an object of another class than the policy's, which the C++ type system excludes.
\<close>

subsection \<open>Malloc_allocator\<close>

fun Malloc_allocator_allocate :: allocate_fn where
  "Malloc_allocator_allocate Malloc_i w s =
     (if s \<le> 0 then (\<lparr>bsize = s, bdata = 0\<rparr>, Malloc_i, w)
      else (let (a, w') = std_malloc w s in (\<lparr>bsize = s, bdata = a\<rparr>, Malloc_i, w')))"
| "Malloc_allocator_allocate i w s = (Block_default, i, w)"

fun Malloc_allocator_deallocate :: deallocate_fn where
  "Malloc_allocator_deallocate Malloc_i w b = (Block_default, Malloc_i, std_free (bdata b) w)"
| "Malloc_allocator_deallocate i w b = (Block_default, i, w)"

fun Malloc_allocator_owns :: owns_fn where
  "Malloc_allocator_owns Malloc_i w b = (bdata b \<noteq> 0)"
| "Malloc_allocator_owns i w b = False"

subsection \<open>Stack_allocator<Size>\<close>

text \<open>
  \<open>s % 2 == 0\<close> truncates towards zero in C++ and \<open>mod\<close> rounds down in HOL, but both
  are \<open>0\<close> exactly on the even numbers.
\<close>

definition align :: "int \<Rightarrow> int" where
  "align s = (if s mod 2 = 0 then s else s + 1)"

fun Stack_allocator_allocate :: "int \<Rightarrow> allocate_fn" where
  "Stack_allocator_allocate Size (Stack_i d p) w s =
     (let s1 = align s in
      if p + s1 > d + Size \<or> p = 0 \<or> s \<le> 0 then (\<lparr>bsize = 0, bdata = 0\<rparr>, Stack_i d p, w)
      else (\<lparr>bsize = s, bdata = p\<rparr>, Stack_i d (p + s1), w))"
| "Stack_allocator_allocate Size i w s = (Block_default, i, w)"

fun Stack_allocator_deallocate :: "int \<Rightarrow> deallocate_fn" where
  "Stack_allocator_deallocate Size (Stack_i d p) w b =
     (if bdata b = p - align (bsize b) then (Block_default, Stack_i d (bdata b), w)
      else (Block_default, Stack_i d p, w))"
| "Stack_allocator_deallocate Size i w b = (Block_default, i, w)"

fun Stack_allocator_owns :: "int \<Rightarrow> owns_fn" where
  "Stack_allocator_owns Size (Stack_i d p) w b = (bdata b \<ge> d \<and> bdata b < d + Size)"
| "Stack_allocator_owns Size i w b = False"

text \<open>
  Construction and assignment. The buffer \<open>d_\<close> is a member of the object, so an
  object is identified by the address of its buffer: the default constructor and the
  copy and move constructors build the object at an address \<open>d\<close> of the
  implementation's choice, and \<open>this == &other\<close> compares the two buffer addresses.
  The move operations return the new state of \<open>other\<close> as their second component.
\<close>

definition Stack_allocator_default :: "int \<Rightarrow> inst" where
  "Stack_allocator_default d = Stack_i d d"

definition Stack_allocator_copy :: "int \<Rightarrow> inst \<Rightarrow> inst" where
  "Stack_allocator_copy d other = Stack_i d d"

fun Stack_allocator_copy_assign :: "inst \<Rightarrow> inst \<Rightarrow> inst" where
  "Stack_allocator_copy_assign (Stack_i d p) (Stack_i d' p') =
     (if d = d' then Stack_i d p else Stack_i d d)"
| "Stack_allocator_copy_assign this other = this"

fun Stack_allocator_move :: "int \<Rightarrow> inst \<Rightarrow> inst \<times> inst" where
  "Stack_allocator_move d (Stack_i d' p') = (Stack_i d d, Stack_i d' 0)"
| "Stack_allocator_move d other = (Stack_i d d, other)"

fun Stack_allocator_move_assign :: "inst \<Rightarrow> inst \<Rightarrow> inst \<times> inst" where
  "Stack_allocator_move_assign (Stack_i d p) (Stack_i d' p') =
     (if d = d' then (Stack_i d p, Stack_i d' p') else (Stack_i d d, Stack_i d' 0))"
| "Stack_allocator_move_assign this other = (this, other)"

subsection \<open>Fallback_allocator<Primary, Fallback>\<close>

fun Fallback_allocator_allocate :: "allocate_fn \<Rightarrow> allocate_fn \<Rightarrow> allocate_fn" where
  "Fallback_allocator_allocate Primary_allocate Fallback_allocate (Fallback_i pr fb) w s =
     (let (b, pr', w') = Primary_allocate pr w s in
      if Block_empty b
      then (let (b', fb', w'') = Fallback_allocate fb w' s in (b', Fallback_i pr' fb', w''))
      else (b, Fallback_i pr' fb, w'))"
| "Fallback_allocator_allocate Primary_allocate Fallback_allocate i w s = (Block_default, i, w)"

fun Fallback_allocator_deallocate ::
  "owns_fn \<Rightarrow> deallocate_fn \<Rightarrow> deallocate_fn \<Rightarrow> deallocate_fn" where
  "Fallback_allocator_deallocate Primary_owns Primary_deallocate Fallback_deallocate
       (Fallback_i pr fb) w b =
     (if Primary_owns pr w b
      then (let (b', pr', w') = Primary_deallocate pr w b in (b', Fallback_i pr' fb, w'))
      else (let (b', fb', w') = Fallback_deallocate fb w b in (b', Fallback_i pr fb', w')))"
| "Fallback_allocator_deallocate Primary_owns Primary_deallocate Fallback_deallocate i w b =
     (Block_default, i, w)"

fun Fallback_allocator_owns :: "owns_fn \<Rightarrow> owns_fn \<Rightarrow> owns_fn" where
  "Fallback_allocator_owns Primary_owns Fallback_owns (Fallback_i pr fb) w b =
     (Primary_owns pr w b \<or> Fallback_owns fb w b)"
| "Fallback_allocator_owns Primary_owns Fallback_owns i w b = False"

subsection \<open>Free_list_allocator<Internal_allocator, Min_size, Max_size, Max_list_size>\<close>

text \<open>
  \<open>allocate\<close> reads \<open>root_->next\<close> and \<open>deallocate\<close> writes \<open>node->next\<close> with
  \<open>node = b.data()\<close>, neither after a test for \<open>nullptr\<close>: with a null pointer the run
  crashes there.
\<close>

fun Free_list_allocator_allocate :: "allocate_fn \<Rightarrow> int \<Rightarrow> int \<Rightarrow> allocate_fn" where
  "Free_list_allocator_allocate Internal_allocate Min_size Max_size
       (Free_list_i inner root list_size) w s =
     (if s \<ge> Min_size \<and> s \<le> Max_size \<and> list_size > 0
      then (\<lparr>bsize = s, bdata = root\<rparr>, Free_list_i inner (node_next w root) (list_size - 1),
            if root = 0 then w\<lparr>crashed := True\<rparr> else w)
      else (let (ib, inner', w') =
                  Internal_allocate inner w (if s < Min_size \<or> s > Max_size then s else Max_size)
            in (\<lparr>bsize = s, bdata = bdata ib\<rparr>, Free_list_i inner' root list_size, w')))"
| "Free_list_allocator_allocate Internal_allocate Min_size Max_size i w s = (Block_default, i, w)"

fun Free_list_allocator_deallocate :: "deallocate_fn \<Rightarrow> int \<Rightarrow> int \<Rightarrow> int \<Rightarrow> deallocate_fn" where
  "Free_list_allocator_deallocate Internal_deallocate Min_size Max_size Max_list_size
       (Free_list_i inner root list_size) w b =
     (if bsize b < Min_size \<or> bsize b > Max_size \<or> list_size > Max_list_size
      then (let nb = \<lparr>bsize = Max_size, bdata = bdata b\<rparr>;
                (nb', inner', w') = Internal_deallocate inner w nb
            in (Block_default, Free_list_i inner' root list_size, w'))
      else (Block_default, Free_list_i inner (bdata b) (list_size + 1),
            if bdata b = 0 then w\<lparr>node_next := (node_next w)(bdata b := root), crashed := True\<rparr>
            else w\<lparr>node_next := (node_next w)(bdata b := root)\<rparr>))"
| "Free_list_allocator_deallocate Internal_deallocate Min_size Max_size Max_list_size i w b =
     (Block_default, i, w)"

fun Free_list_allocator_owns :: "owns_fn \<Rightarrow> int \<Rightarrow> int \<Rightarrow> owns_fn" where
  "Free_list_allocator_owns Internal_owns Min_size Max_size (Free_list_i inner root list_size) w b =
     ((bsize b \<ge> Min_size \<and> bsize b \<le> Max_size) \<or> Internal_owns inner w b)"
| "Free_list_allocator_owns Internal_owns Min_size Max_size i w b = False"

subsection \<open>Stats_allocator<Internal_allocator, Number_of_records>\<close>

text \<open>
  The amounts, the total and the number of records are \<open>std::int64_t\<close>, and the
  amounts are sums of sizes that the caller of \<open>allocate\<close> and \<open>deallocate\<close> chooses.
  Signed overflow is undefined in C++; the compiled code wraps around, and so does
  the model: \<open>int64 x\<close> is the 64-bit two's complement value of \<open>x\<close>.
\<close>

definition int64 :: "int \<Rightarrow> int" where
  "int64 x = (x + 2 ^ 63) mod 2 ^ 64 - 2 ^ 63"

definition int64_range :: "int \<Rightarrow> bool" where
  "int64_range x = (- (2 ^ 63) \<le> x \<and> x < 2 ^ 63)"

text \<open>
  The macro \<open>MEMOC_SSIZEOF\<close> is not among the sources; \<open>MEMOC_SSIZEOF(Record)\<close>, the
  signed size of a \<open>Record\<close>, is the parameter \<open>ssizeof_Record\<close>. The default argument
  \<open>time\<close> of \<open>add_record\<close> is the clock at the call. The branch for a full chain
  dereferences \<open>tail_\<close> and \<open>root_\<close>, and the other branch dereferences \<open>tail_\<close> when
  \<open>root_\<close> is not null, none after a test: with a null pointer the run crashes there.
\<close>

fun add_record :: "allocate_fn \<Rightarrow> int \<Rightarrow> int \<Rightarrow> inst \<Rightarrow> world \<Rightarrow> int \<Rightarrow> int \<Rightarrow> inst \<times> world" where
  "add_record Internal_allocate ssizeof_Record Number_of_records
       (Stats_i inner number_of_records total_allocated root tail) w p a =
     (if number_of_records \<ge> Number_of_records
      then (let m1 = (record_at w)(tail := (record_at w tail)\<lparr>link := root\<rparr>);
                root' = link (m1 root);
                tail' = link (m1 tail);
                m2 = m1(tail' := (m1 tail')
                       \<lparr>request_address := p, amount := int64 (ssizeof_Record + a),
                        time := clock w, link := 0\<rparr>)
            in (Stats_i inner number_of_records (int64 (total_allocated + amount (m2 tail')))
                  root' tail',
                if tail = 0 \<or> root = 0 then w\<lparr>record_at := m2, crashed := True\<rparr>
                else w\<lparr>record_at := m2\<rparr>))
      else (let (b1, inner', w') = Internal_allocate inner w ssizeof_Record in
            if Block_empty b1
            then (Stats_i inner' number_of_records total_allocated root tail, w')
            else (let m1 = (if root = 0 then record_at w'
                            else (record_at w')(tail := (record_at w' tail)\<lparr>link := bdata b1\<rparr>));
                      root' = (if root = 0 then bdata b1 else root);
                      tail' = bdata b1;
                      m2 = m1(tail' := (m1 tail')
                             \<lparr>record_address := bdata b1, request_address := p,
                              amount := int64 (bsize b1 + a), time := clock w, link := 0\<rparr>)
                  in (Stats_i inner' (int64 (number_of_records + 1))
                        (int64 (total_allocated + amount (m2 tail'))) root' tail',
                      if root \<noteq> 0 \<and> tail = 0 then w'\<lparr>record_at := m2, crashed := True\<rparr>
                      else w'\<lparr>record_at := m2\<rparr>))))"
| "add_record Internal_allocate ssizeof_Record Number_of_records i w p a = (i, w)"

fun Stats_allocator_allocate :: "allocate_fn \<Rightarrow> int \<Rightarrow> int \<Rightarrow> allocate_fn" where
  "Stats_allocator_allocate Internal_allocate ssizeof_Record Number_of_records
       (Stats_i inner number_of_records total_allocated root tail) w s =
     (let (b, inner', w') = Internal_allocate inner w s in
      if \<not> Block_empty b
      then (let (i', w'') = add_record Internal_allocate ssizeof_Record Number_of_records
                              (Stats_i inner' number_of_records total_allocated root tail) w'
                              (bdata b) (bsize b)
            in (b, i', w''))
      else (b, Stats_i inner' number_of_records total_allocated root tail, w'))"
| "Stats_allocator_allocate Internal_allocate ssizeof_Record Number_of_records i w s =
     (Block_default, i, w)"

fun Stats_allocator_deallocate ::
  "allocate_fn \<Rightarrow> deallocate_fn \<Rightarrow> int \<Rightarrow> int \<Rightarrow> deallocate_fn" where
  "Stats_allocator_deallocate Internal_allocate Internal_deallocate ssizeof_Record Number_of_records
       (Stats_i inner number_of_records total_allocated root tail) w b =
     (let bc = b;
          (b', inner', w') = Internal_deallocate inner w b in
      if Block_empty b'
      then (let (i', w'') = add_record Internal_allocate ssizeof_Record Number_of_records
                              (Stats_i inner' number_of_records total_allocated root tail) w'
                              (bdata bc) (int64 (- bsize bc))
            in (b', i', w''))
      else (b', Stats_i inner' number_of_records total_allocated root tail, w'))"
| "Stats_allocator_deallocate Internal_allocate Internal_deallocate ssizeof_Record Number_of_records
       i w b = (Block_default, i, w)"

fun Stats_allocator_owns :: "owns_fn \<Rightarrow> owns_fn" where
  "Stats_allocator_owns Internal_owns (Stats_i inner number_of_records total_allocated root tail) w b =
     Internal_owns inner w b"
| "Stats_allocator_owns Internal_owns i w b = False"

fun stats_list :: "inst \<Rightarrow> int" where
  "stats_list (Stats_i inner number_of_records total_allocated root tail) = root"
| "stats_list i = 0"


fun total_allocated :: "inst \<Rightarrow> int" where
  "total_allocated (Stats_i inner number_of_records total_alloc root tail) = total_alloc"
| "total_allocated i = 0"

subsection \<open>Shared_allocator<Internal_allocator, id>\<close>

text \<open>
  The object has no data member of its own: every member function works on the static
  member \<open>allocator_\<close> of its instantiation, which lives in the world under the key
  \<open>(Internal_allocator, id)\<close>.
\<close>

fun Shared_allocator_allocate :: "allocate_fn \<Rightarrow> policy \<times> int \<Rightarrow> allocate_fn" where
  "Shared_allocator_allocate Internal_allocate key Shared_i w s =
     (let (b, a', w') = Internal_allocate (shared w key) w s
      in (b, Shared_i, w'\<lparr>shared := (shared w')(key := a')\<rparr>))"
| "Shared_allocator_allocate Internal_allocate key i w s = (Block_default, i, w)"

fun Shared_allocator_deallocate :: "deallocate_fn \<Rightarrow> policy \<times> int \<Rightarrow> deallocate_fn" where
  "Shared_allocator_deallocate Internal_deallocate key Shared_i w b =
     (let (b', a', w') = Internal_deallocate (shared w key) w b
      in (b', Shared_i, w'\<lparr>shared := (shared w')(key := a')\<rparr>))"
| "Shared_allocator_deallocate Internal_deallocate key i w b = (Block_default, i, w)"

fun Shared_allocator_owns :: "owns_fn \<Rightarrow> policy \<times> int \<Rightarrow> owns_fn" where
  "Shared_allocator_owns Internal_owns key Shared_i w b = Internal_owns (shared w key) w b"
| "Shared_allocator_owns Internal_owns key i w b = False"

subsection \<open>Every policy of the toolkit\<close>

text \<open>
  The member functions of an arbitrary instantiation, by recursion over the template
  arguments; \<open>rs\<close> is \<open>MEMOC_SSIZEOF(Record)\<close>.
\<close>

primrec allocate :: "int \<Rightarrow> policy \<Rightarrow> allocate_fn" where
  "allocate rs Malloc_allocator = Malloc_allocator_allocate"
| "allocate rs (Stack_allocator Size) = Stack_allocator_allocate Size"
| "allocate rs (Fallback_allocator P F) =
     Fallback_allocator_allocate (allocate rs P) (allocate rs F)"
| "allocate rs (Free_list_allocator I Min_size Max_size Max_list_size) =
     Free_list_allocator_allocate (allocate rs I) Min_size Max_size"
| "allocate rs (Stats_allocator I Number_of_records) =
     Stats_allocator_allocate (allocate rs I) rs Number_of_records"
| "allocate rs (Shared_allocator I ident) = Shared_allocator_allocate (allocate rs I) (I, ident)"

primrec owns :: "policy \<Rightarrow> owns_fn" where
  "owns Malloc_allocator = Malloc_allocator_owns"
| "owns (Stack_allocator Size) = Stack_allocator_owns Size"
| "owns (Fallback_allocator P F) = Fallback_allocator_owns (owns P) (owns F)"
| "owns (Free_list_allocator I Min_size Max_size Max_list_size) =
     Free_list_allocator_owns (owns I) Min_size Max_size"
| "owns (Stats_allocator I Number_of_records) = Stats_allocator_owns (owns I)"
| "owns (Shared_allocator I ident) = Shared_allocator_owns (owns I) (I, ident)"

primrec deallocate :: "int \<Rightarrow> policy \<Rightarrow> deallocate_fn" where
  "deallocate rs Malloc_allocator = Malloc_allocator_deallocate"
| "deallocate rs (Stack_allocator Size) = Stack_allocator_deallocate Size"
| "deallocate rs (Fallback_allocator P F) =
     Fallback_allocator_deallocate (owns P) (deallocate rs P) (deallocate rs F)"
| "deallocate rs (Free_list_allocator I Min_size Max_size Max_list_size) =
     Free_list_allocator_deallocate (deallocate rs I) Min_size Max_size Max_list_size"
| "deallocate rs (Stats_allocator I Number_of_records) =
     Stats_allocator_deallocate (allocate rs I) (deallocate rs I) rs Number_of_records"
| "deallocate rs (Shared_allocator I ident) =
     Shared_allocator_deallocate (deallocate rs I) (I, ident)"

subsection \<open>The front door (details::allocate)\<close>

datatype Allocator_error = invalid_size | unknown

text \<open>
  \<open>erroc::Expected<Block<void>, Allocator_error>\<close> is the sum type, \<open>Inl\<close> the error.
  The function is a template over the allocator's class: it takes the member
  function \<open>allocate\<close> of that class.
\<close>

definition details_allocate ::
  "('a \<Rightarrow> world \<Rightarrow> int \<Rightarrow> block \<times> 'a \<times> world) \<Rightarrow> 'a \<Rightarrow> world \<Rightarrow> int
     \<Rightarrow> (Allocator_error + block) \<times> 'a \<times> world" where
  "details_allocate allocator_allocate allocator w sz =
     (if sz < 0 then (Inl invalid_size, allocator, w)
      else if sz = 0 then (Inr Block_default, allocator, w)
      else (let (b, allocator', w') = allocator_allocate allocator w sz in
            if Block_empty b then (Inl unknown, allocator', w') else (Inr b, allocator', w')))"

subsection \<open>Construction\<close>

text \<open>
  \<open>create<T>()\<close> returns \<open>T()\<close>. The default member initialisers give \<open>p_ = d_\<close>, an
  empty free list and an empty record chain. Where an object lives is the
  implementation's choice: \<open>create P a\<close> is the object whose first arena buffer is at
  address \<open>a\<close>, with the buffers of its sub-objects one after the other (\<open>extent\<close> is
  the room the buffers of an object take).
\<close>

primrec extent :: "policy \<Rightarrow> int" where
  "extent Malloc_allocator = 0"
| "extent (Stack_allocator Size) = Size"
| "extent (Fallback_allocator P F) = extent P + extent F"
| "extent (Free_list_allocator I Min_size Max_size Max_list_size) = extent I"
| "extent (Stats_allocator I Number_of_records) = extent I"
| "extent (Shared_allocator I ident) = 0"

primrec create :: "policy \<Rightarrow> int \<Rightarrow> inst" where
  "create Malloc_allocator a = Malloc_i"
| "create (Stack_allocator Size) a = Stack_allocator_default a"
| "create (Fallback_allocator P F) a = Fallback_i (create P a) (create F (a + extent P))"
| "create (Free_list_allocator I Min_size Max_size Max_list_size) a = Free_list_i (create I a) 0 0"
| "create (Stats_allocator I Number_of_records) a = Stats_i (create I a) 0 0 0 0"
| "create (Shared_allocator I ident) a = Shared_i"

text \<open>
  The world at program start: nothing has been requested from the platform heap, the
  memory is zeroed, and every static \<open>allocator_\<close> is default-constructed. The static
  members are distinct objects: \<open>static_base\<close> gives each its own address, far enough
  from the others for its arena buffers (\<open>key_code\<close> numbers the instantiations and is
  not smaller than the room an instantiation needs).
\<close>

primrec policy_code :: "policy \<Rightarrow> nat" where
  "policy_code Malloc_allocator = 0"
| "policy_code (Stack_allocator Size) = 1 + 6 * int_encode Size"
| "policy_code (Fallback_allocator P F) = 2 + 6 * prod_encode (policy_code P, policy_code F)"
| "policy_code (Free_list_allocator I Min_size Max_size Max_list_size) =
     3 + 6 * prod_encode (policy_code I,
               prod_encode (int_encode Min_size,
                 prod_encode (int_encode Max_size, int_encode Max_list_size)))"
| "policy_code (Stats_allocator I Number_of_records) =
     4 + 6 * prod_encode (policy_code I, int_encode Number_of_records)"
| "policy_code (Shared_allocator I ident) = 5 + 6 * prod_encode (policy_code I, int_encode ident)"

definition key_code :: "policy \<times> int \<Rightarrow> nat" where
  "key_code key = prod_encode (policy_code (fst key), int_encode (snd key))"

definition static_base :: "policy \<times> int \<Rightarrow> int" where
  "static_base key = 65536 + int (key_code key * (key_code key + 1))"

definition initial_world :: "int list \<Rightarrow> world" where
  "initial_world answers =
     \<lparr>malloc_answers = answers, heap_trace = [], node_next = (\<lambda>a. 0),
      record_at = (\<lambda>a. \<lparr>record_address = 0, request_address = 0, amount = 0, time = 0, link = 0\<rparr>),
      clock = 0, shared = (\<lambda>key. create (fst key) (static_base key)), crashed = False\<rparr>"

subsection \<open>Invariants\<close>

text \<open>The \<open>static_assert\<close>s of the class templates.\<close>

primrec valid :: "policy \<Rightarrow> bool" where
  "valid Malloc_allocator = True"
| "valid (Stack_allocator Size) = (Size > 1 \<and> Size mod 2 = 0)"
| "valid (Fallback_allocator P F) = (valid P \<and> valid F)"
| "valid (Free_list_allocator I Min_size Max_size Max_list_size) =
     (valid I \<and> Min_size > 1 \<and> Min_size mod 2 = 0 \<and> Max_size > 1 \<and> Max_size mod 2 = 0
      \<and> Max_list_size > 0)"
| "valid (Stats_allocator I Number_of_records) = valid I"
| "valid (Shared_allocator I ident) = valid I"

text \<open>
  An object is of its policy's class, and the bump pointer of every arena in it is
  null or points into the arena's buffer (or one past its end). The invariant holds
  for a created object and \<open>allocate\<close> keeps it. The \<open>deallocate\<close> of an arena keeps
  it for a Block that the arena owns; an arena retracts to the address of any Block
  that passes its last-allocated test, so a Block from elsewhere can break it.
\<close>

fun wf_inst :: "policy \<Rightarrow> inst \<Rightarrow> bool" where
  "wf_inst Malloc_allocator Malloc_i = True"
| "wf_inst (Stack_allocator Size) (Stack_i d p) = (0 < d \<and> (p = 0 \<or> (d \<le> p \<and> p \<le> d + Size)))"
| "wf_inst (Fallback_allocator P F) (Fallback_i pr fb) = (wf_inst P pr \<and> wf_inst F fb)"
| "wf_inst (Free_list_allocator I Min_size Max_size Max_list_size)
       (Free_list_i inner root list_size) = wf_inst I inner"
| "wf_inst (Stats_allocator I Number_of_records)
       (Stats_i inner number_of_records total_alloc root tail) = wf_inst I inner"
| "wf_inst (Shared_allocator I ident) Shared_i = True"
| "wf_inst P i = False"

definition wf_world :: "world \<Rightarrow> bool" where
  "wf_world w = (\<forall>I ident. valid I \<longrightarrow> wf_inst I (shared w (I, ident)))"

text \<open>
  What \<open>owns\<close> reads of an object: its shape and the addresses of its arena buffers.
  No member function changes them.
\<close>

primrec frame :: "inst \<Rightarrow> inst" where
  "frame Malloc_i = Malloc_i"
| "frame (Stack_i d p) = Stack_i d 0"
| "frame (Fallback_i pr fb) = Fallback_i (frame pr) (frame fb)"
| "frame (Free_list_i inner root list_size) = Free_list_i (frame inner) 0 0"
| "frame (Stats_i inner number_of_records total_alloc root tail) = Stats_i (frame inner) 0 0 0 0"
| "frame Shared_i = Shared_i"



subsection \<open>Callers\<close>

text \<open>A caller that allocates a list of sizes, or deallocates a list of Blocks, in turn.\<close>

fun allocate_each :: "allocate_fn \<Rightarrow> inst \<Rightarrow> world \<Rightarrow> int list \<Rightarrow> block list \<times> inst \<times> world" where
  "allocate_each alloc i w [] = ([], i, w)"
| "allocate_each alloc i w (s # ss) =
     (let (b, i', w') = alloc i w s; (bs, i'', w'') = allocate_each alloc i' w' ss
      in (b # bs, i'', w''))"

fun deallocate_each :: "deallocate_fn \<Rightarrow> inst \<Rightarrow> world \<Rightarrow> block list \<Rightarrow> inst \<times> world" where
  "deallocate_each dealloc i w [] = (i, w)"
| "deallocate_each dealloc i w (b # bs) =
     (let (b', i', w') = dealloc i w b in deallocate_each dealloc i' w' bs)"

text \<open>
  The instantiations and runs used as examples. \<open>MEMOC_SSIZEOF(Record)\<close> is \<open>40\<close> in
  them (two pointers, a 64-bit amount, a time point and a pointer on an LP64 platform).
\<close>

definition fallback_16 :: policy where
  "fallback_16 = Fallback_allocator (Stack_allocator 16) Malloc_allocator"

definition free_list_16_64_4 :: policy where
  "free_list_16_64_4 = Free_list_allocator Malloc_allocator 16 64 4"


definition stats_2 :: policy where
  "stats_2 = Stats_allocator Malloc_allocator 2"

definition layered :: policy where
  "layered =
     Stats_allocator
       (Fallback_allocator (Stack_allocator 16)
          (Free_list_allocator (Shared_allocator Malloc_allocator 7) 16 64 4)) 2"

text \<open>Five Blocks of size 32 from the free list over the heap, then the first four freed.\<close>

definition free_list_allocated :: "block list \<times> inst \<times> world" where
  "free_list_allocated =
     allocate_each (allocate 40 free_list_16_64_4) (create free_list_16_64_4 4096)
       (initial_world [1000, 2000, 3000, 4000, 5000]) [32, 32, 32, 32, 32]"

definition free_list_four_freed :: "inst \<times> world" where
  "free_list_four_freed =
     deallocate_each (deallocate 40 free_list_16_64_4) (fst (snd free_list_allocated))
       (snd (snd free_list_allocated)) (take 4 (fst free_list_allocated))"

definition free_list_fifth_freed :: "block \<times> inst \<times> world" where
  "free_list_fifth_freed =
     deallocate 40 free_list_16_64_4 (fst free_list_four_freed) (snd free_list_four_freed)
       \<lparr>bsize = 32, bdata = 5000\<rparr>"

text \<open>A Block of size \<open>s\<close> from the statistics layer over the heap, and its release.\<close>

definition stats_allocated :: "int \<Rightarrow> block \<times> inst \<times> world" where
  "stats_allocated s =
     allocate 40 stats_2 (create stats_2 4096) (initial_world [500, 1000, 2000]) s"

definition stats_deallocated :: "int \<Rightarrow> block \<times> inst \<times> world" where
  "stats_deallocated s =
     deallocate 40 stats_2 (fst (snd (stats_allocated s))) (snd (snd (stats_allocated s)))
       (fst (stats_allocated s))"



section \<open>Properties of every policy\<close>

subsection \<open>What allocate returns\<close>

text \<open>A Block that \<open>allocate(s)\<close> returns has size \<open>s\<close> unless its address is null.\<close>

lemma allocate_size:
  "allocate rs P i w s = (b, i', w') \<Longrightarrow> bdata b = 0 \<or> bsize b = s"
proof (induction P arbitrary: i w s b i' w')
  case Malloc_allocator
  then show ?case by (cases i) (auto simp: Block_default_def split: if_splits prod.splits)
next
  case (Stack_allocator Size)
  then show ?case by (cases i) (auto simp: Block_default_def Let_def split: if_splits prod.splits)
next
  case (Fallback_allocator P F)
  then show ?case by (cases i) (auto simp: Block_default_def Let_def split: if_splits prod.splits)
next
  case (Free_list_allocator I Min_size Max_size Max_list_size)
  then show ?case by (cases i) (auto simp: Block_default_def Let_def split: if_splits prod.splits)
next
  case (Stats_allocator I N)
  then show ?case by (cases i) (auto simp: Block_default_def Let_def split: if_splits prod.splits)
next
  case (Shared_allocator I ident)
  then show ?case by (cases i) (auto simp: Block_default_def Let_def split: if_splits prod.splits)
qed

text \<open>A request of a size \<open>s \<le> 0\<close> gets a null address from every policy.\<close>

lemma allocate_nonpos:
  "valid P \<Longrightarrow> s \<le> 0 \<Longrightarrow> allocate rs P i w s = (b, i', w') \<Longrightarrow> bdata b = 0"
proof (induction P arbitrary: i w s b i' w')
  case Malloc_allocator
  then show ?case by (cases i) (auto simp: Block_default_def split: if_splits prod.splits)
next
  case (Stack_allocator Size)
  then show ?case by (cases i) (auto simp: Block_default_def Let_def split: if_splits prod.splits)
next
  case (Fallback_allocator P F)
  then show ?case by (cases i) (auto simp: Block_default_def Let_def split: if_splits prod.splits)
next
  case (Free_list_allocator I Min_size Max_size Max_list_size)
  then show ?case by (cases i) (auto simp: Block_default_def Let_def split: if_splits prod.splits)
next
  case (Stats_allocator I N)
  then show ?case by (cases i) (auto simp: Block_default_def Let_def split: if_splits prod.splits)
next
  case (Shared_allocator I ident)
  then show ?case by (cases i) (auto simp: Block_default_def Let_def split: if_splits prod.splits)
qed

text \<open>Every \<open>deallocate\<close> hands the default Block back to its caller.\<close>

lemma deallocate_empties:
  "deallocate rs P i w b = (b', i', w') \<Longrightarrow> b' = Block_default"
proof (induction P arbitrary: i w b b' i' w')
  case Malloc_allocator
  then show ?case by (cases i) (auto split: if_splits prod.splits)
next
  case (Stack_allocator Size)
  then show ?case by (cases i) (auto simp: Let_def split: if_splits prod.splits)
next
  case (Fallback_allocator P F)
  then show ?case by (cases i) (auto simp: Let_def split: if_splits prod.splits)
next
  case (Free_list_allocator I Min_size Max_size Max_list_size)
  then show ?case by (cases i) (auto simp: Let_def split: if_splits prod.splits)
next
  case (Stats_allocator I N)
  then show ?case by (cases i) (auto simp: Let_def split: if_splits prod.splits)
next
  case (Shared_allocator I ident)
  then show ?case by (cases i) (auto simp: Let_def split: if_splits prod.splits)
qed

subsection \<open>owns reads the frame only\<close>

lemma owns_frame:
  "frame i = frame i' \<Longrightarrow> \<forall>k. frame (shared w k) = frame (shared w' k) \<Longrightarrow>
   owns P i w b = owns P i' w' b"
proof (induction P arbitrary: i i')
  case Malloc_allocator
  then show ?case by (cases i; cases i') auto
next
  case (Stack_allocator Size)
  then show ?case by (cases i; cases i') auto
next
  case (Fallback_allocator P F)
  then show ?case by (cases i; cases i') auto
next
  case (Free_list_allocator I Min_size Max_size Max_list_size)
  then show ?case by (cases i; cases i') auto
next
  case (Stats_allocator I N)
  then show ?case by (cases i; cases i') auto
next
  case (Shared_allocator I ident)
  then show ?case by (cases i; cases i') auto
qed

lemma add_record_frame:
  assumes "\<And>i w s b i' w'. IA i w s = (b, i', w') \<Longrightarrow>
             frame i' = frame i \<and> (\<forall>k. frame (shared w' k) = frame (shared w k))"
    and "add_record IA rs N i w p a = (i', w')"
  shows "frame i' = frame i \<and> (\<forall>k. frame (shared w' k) = frame (shared w k))"
  using assms(2)
  by (cases i) (auto simp: Let_def split: if_splits prod.splits dest!: assms(1))

lemma allocate_frame:
  "allocate rs P i w s = (b, i', w') \<Longrightarrow>
   frame i' = frame i \<and> (\<forall>k. frame (shared w' k) = frame (shared w k))"
proof (induction P arbitrary: i w s b i' w')
  case Malloc_allocator
  then show ?case
    by (cases i) (auto simp: std_malloc_def split: if_splits prod.splits list.splits)
next
  case (Stack_allocator Size)
  then show ?case by (cases i) (auto simp: Let_def split: if_splits prod.splits)
next
  case (Fallback_allocator P F)
  then show ?case by (cases i) (fastforce simp: Let_def split: if_splits prod.splits)+
next
  case (Free_list_allocator I Min_size Max_size Max_list_size)
  then show ?case by (cases i) (fastforce simp: Let_def split: if_splits prod.splits)+
next
  case (Stats_allocator I N)
  note IH = Stats_allocator.IH
  have ar: "\<And>j v p a j' v'. add_record (allocate rs I) rs N j v p a = (j', v') \<Longrightarrow>
     frame j' = frame j \<and> (\<forall>k. frame (shared v' k) = frame (shared v k))"
    using add_record_frame[of "allocate rs I"] IH by blast
  from Stats_allocator.prems show ?case
    by (cases i) (fastforce simp: Let_def split: if_splits prod.splits dest!: ar IH)+
next
  case (Shared_allocator I ident)
  then show ?case by (cases i) (fastforce simp: Let_def split: if_splits prod.splits)+
qed

subsection \<open>The invariant holds at creation and allocate keeps it\<close>

lemma align_ge: "s \<le> align s"
  by (simp add: align_def)

lemma extent_nonneg: "valid P \<Longrightarrow> 0 \<le> extent P"
  by (induction P) auto

lemma wf_create: "valid P \<Longrightarrow> 0 < a \<Longrightarrow> wf_inst P (create P a)"
proof (induction P arbitrary: a)
  case (Fallback_allocator P F)
  then show ?case using extent_nonneg[of P] by simp
qed (simp_all add: Stack_allocator_default_def)

lemma static_base_pos: "0 < static_base key"
proof -
  have "(0::int) \<le> int (key_code key * (key_code key + 1))"
    by (rule of_nat_0_le_iff)
  then show ?thesis unfolding static_base_def by linarith
qed

lemma wf_initial_world: "wf_world (initial_world answers)"
  by (simp add: wf_world_def initial_world_def wf_create static_base_pos)

lemma wf_world_update:
  "wf_world (v\<lparr>record_at := f\<rparr>) = wf_world v"
  "wf_world (v\<lparr>crashed := c\<rparr>) = wf_world v"
  "wf_world (v\<lparr>node_next := g\<rparr>) = wf_world v"
  "wf_world (v\<lparr>heap_trace := h\<rparr>) = wf_world v"
  "wf_world (v\<lparr>malloc_answers := m\<rparr>) = wf_world v"
  by (simp_all add: wf_world_def)

lemma Stack_deallocate_wf:
  "wf_inst (Stack_allocator Size) i \<Longrightarrow> Stack_allocator_owns Size i w b \<Longrightarrow>
   wf_inst (Stack_allocator Size) (fst (snd (deallocate rs (Stack_allocator Size) i w b)))"
  by (cases i) auto

lemma add_record_wf:
  assumes "\<And>i w s. wf_inst I i \<Longrightarrow> wf_world w \<Longrightarrow>
       wf_inst I (fst (snd (IA i w s))) \<and> wf_world (snd (snd (IA i w s)))"
    and "wf_inst (Stats_allocator I N) i" and "wf_world w"
  shows "wf_inst (Stats_allocator I N) (fst (add_record IA rs N i w p a))
       \<and> wf_world (snd (add_record IA rs N i w p a))"
proof (cases i)
  case (Stats_i inner n t root tail)
  with assms(2) have wi: "wf_inst I inner" by simp
  note st = assms(1)[OF wi assms(3), of rs]
  show ?thesis
    using st wi assms(3) by (simp add: Stats_i Let_def case_prod_beta wf_world_update)
qed (use assms(2) in simp_all)

lemma allocate_wf:
  "valid P \<Longrightarrow> wf_inst P i \<Longrightarrow> wf_world w \<Longrightarrow>
   wf_inst P (fst (snd (allocate rs P i w s))) \<and> wf_world (snd (snd (allocate rs P i w s)))"
proof (induction P arbitrary: i w s)
  case Malloc_allocator
  then show ?case
    by (cases i) (auto simp: std_malloc_def wf_world_def split: if_splits prod.splits list.splits)
next
  case (Stack_allocator Size)
  then show ?case using align_ge[of s]
    by (cases i) (auto simp: Let_def split: if_splits prod.splits)
next
  case (Fallback_allocator P F)
  then show ?case by (cases i) (simp_all add: Let_def case_prod_beta)
next
  case (Free_list_allocator I Min_size Max_size Max_list_size)
  then show ?case by (cases i) (simp_all add: Let_def case_prod_beta wf_world_update)
next
  case (Stats_allocator I N)
  have IH: "\<And>i w s. wf_inst I i \<Longrightarrow> wf_world w \<Longrightarrow>
     wf_inst I (fst (snd (allocate rs I i w s))) \<and> wf_world (snd (snd (allocate rs I i w s)))"
    using Stats_allocator.IH Stats_allocator.prems(1) by simp
  have ar: "\<And>j v p a. wf_inst (Stats_allocator I N) j \<Longrightarrow> wf_world v \<Longrightarrow>
     wf_inst (Stats_allocator I N) (fst (add_record (allocate rs I) rs N j v p a))
       \<and> wf_world (snd (add_record (allocate rs I) rs N j v p a))"
    by (rule add_record_wf[where I = I]) (simp_all add: IH)
  show ?case
  proof (cases i)
    case (Stats_i inner n t root tail)
    with Stats_allocator.prems have wi: "wf_inst I inner" by simp
    note st = IH[OF wi Stats_allocator.prems(3), of s]
    have "wf_inst (Stats_allocator I N)
            (Stats_i (fst (snd (allocate rs I inner w s))) n t root tail)"
      using st by simp
    from ar[OF this conjunct2[OF st]] st show ?thesis
      by (simp add: Stats_i Let_def case_prod_beta)
  qed (use Stats_allocator.prems in simp_all)
next
  case (Shared_allocator I ident)
  then show ?case
    by (cases i) (simp_all add: Let_def case_prod_beta wf_world_def)
qed


subsection \<open>A Block that allocate returns is owned\<close>

lemma allocate_owns:
  "valid P \<Longrightarrow> wf_inst P i \<Longrightarrow> wf_world w \<Longrightarrow> 0 < s \<Longrightarrow>
   \<not> Block_empty (fst (allocate rs P i w s)) \<Longrightarrow>
   owns P (fst (snd (allocate rs P i w s))) (snd (snd (allocate rs P i w s)))
     (fst (allocate rs P i w s))"
proof (induction P arbitrary: i w s)
  case Malloc_allocator
  then show ?case
    by (cases i) (auto simp: Block_empty_def Block_default_def case_prod_beta)
next
  case (Stack_allocator Size)
  then show ?case using align_ge[of s]
    by (cases i) (auto simp: Block_empty_def Block_default_def Let_def)
next
  case (Fallback_allocator P F)
  show ?case
  proof (cases i)
    case (Fallback_i pr fb)
    with Fallback_allocator.prems
    have v: "valid P" "valid F" and wi: "wf_inst P pr" "wf_inst F fb"
      by simp_all
    note wp = allocate_wf[OF v(1) wi(1) Fallback_allocator.prems(3), of rs s]
    show ?thesis
    proof (cases "Block_empty (fst (allocate rs P pr w s))")
      case True
      with Fallback_allocator.prems(5)
      have ne: "\<not> Block_empty (fst (allocate rs F fb (snd (snd (allocate rs P pr w s))) s))"
        by (simp add: Fallback_i case_prod_beta)
      from Fallback_allocator.IH(2)[OF v(2) wi(2) conjunct2[OF wp]
          Fallback_allocator.prems(4) ne] True
      show ?thesis by (simp add: Fallback_i case_prod_beta)
    next
      case False
      from Fallback_allocator.IH(1)[OF v(1) wi(1) Fallback_allocator.prems(3,4) False] False
      show ?thesis by (simp add: Fallback_i case_prod_beta)
    qed
  qed (use Fallback_allocator.prems in simp_all)
next
  case (Free_list_allocator I Min_size Max_size Max_list_size)
  show ?case
  proof (cases i)
    case (Free_list_i inner root list_size)
    with Free_list_allocator.prems have v: "valid I" and wi: "wf_inst I inner"
      by simp_all
    show ?thesis
    proof (cases "Min_size \<le> s \<and> s \<le> Max_size")
      case True
      then show ?thesis by (simp add: Free_list_i case_prod_beta)
    next
      case False
      then have out: "s < Min_size \<or> s > Max_size" by auto
      obtain ib in' w' where a: "allocate rs I inner w s = (ib, in', w')"
        by (cases "allocate rs I inner w s") auto
      from Free_list_allocator.prems(5) out a have nz: "bdata ib \<noteq> 0"
        by (auto simp: Free_list_i Block_empty_def)
      with allocate_size[OF a] have sz: "bsize ib = s" by simp
      with nz Free_list_allocator.prems(4)
      have "\<not> Block_empty (fst (allocate rs I inner w s))"
        by (simp add: a Block_empty_def)
      from Free_list_allocator.IH[OF v wi Free_list_allocator.prems(3,4) this]
      have "owns I in' w' ib" by (simp add: a)
      moreover have "\<lparr>bsize = s, bdata = bdata ib\<rparr> = ib" using sz by simp
      ultimately show ?thesis using out a by (simp add: Free_list_i)
    qed
  qed (use Free_list_allocator.prems in simp_all)
next
  case (Stats_allocator I N)
  show ?case
  proof (cases i)
    case (Stats_i inner n t root tail)
    with Stats_allocator.prems have v: "valid I" and wi: "wf_inst I inner"
      by simp_all
    obtain b in' w' where a: "allocate rs I inner w s = (b, in', w')"
      by (cases "allocate rs I inner w s") auto
    from Stats_allocator.prems(5) have ne: "\<not> Block_empty b"
      by (auto simp: Stats_i a Block_default_def Block_empty_def split: if_splits)
    from Stats_allocator.IH[OF v wi Stats_allocator.prems(3,4)] ne have ow: "owns I in' w' b"
      by (simp add: a)
    obtain i'' w'' where r:
      "add_record (allocate rs I) rs N (Stats_i in' n t root tail) w' (bdata b) (bsize b) = (i'', w'')"
      by (cases "add_record (allocate rs I) rs N (Stats_i in' n t root tail) w' (bdata b) (bsize b)")
        auto
    from add_record_frame[OF allocate_frame r]
    have fr: "frame i'' = frame (Stats_i in' n t root tail)"
      "\<forall>k. frame (shared w'' k) = frame (shared w' k)"
      by auto
    have "owns (Stats_allocator I N) i'' w'' b =
          owns (Stats_allocator I N) (Stats_i in' n t root tail) w' b"
      by (rule owns_frame) (use fr in auto)
    moreover have "allocate rs (Stats_allocator I N) i w s = (b, i'', w'')"
      using ne by (simp add: Stats_i a r del: add_record.simps)
    ultimately show ?thesis using ow by simp
  qed (use Stats_allocator.prems in simp_all)
next
  case (Shared_allocator I ident)
  show ?case
  proof (cases i)
    case Shared_i
    from Shared_allocator.prems have v: "valid I" by simp
    with Shared_allocator.prems(3) have wi: "wf_inst I (shared w (I, ident))"
      by (simp add: wf_world_def)
    obtain b a' w' where a: "allocate rs I (shared w (I, ident)) w s = (b, a', w')"
      by (cases "allocate rs I (shared w (I, ident)) w s") auto
    from Shared_allocator.prems(5) have ne: "\<not> Block_empty b"
      by (simp add: Shared_i a)
    from Shared_allocator.IH[OF v wi Shared_allocator.prems(3,4)] ne have ow: "owns I a' w' b"
      by (simp add: a)
    from allocate_frame[OF a]
    have fr: "frame a' = frame (shared w (I, ident))"
      "\<forall>k. frame (shared w' k) = frame (shared w k)"
      by auto
    have "owns I a' (w'\<lparr>shared := (shared w')((I, ident) := a')\<rparr>) b = owns I a' w' b"
      by (rule owns_frame) (use fr in auto)
    with ow show ?thesis by (simp add: Shared_i a)
  qed (use Shared_allocator.prems in simp_all)
qed

subsection \<open>A moved-from arena\<close>

lemma moved_from_allocate_each:
  "allocate_each (Stack_allocator_allocate Size) (Stack_i d 0) w ss =
     (replicate (length ss) Block_default, Stack_i d 0, w)"
  by (induction ss) (simp_all add: Block_default_def)

subsection \<open>The record that add_record writes\<close>

lemma int64_id: "int64_range x \<Longrightarrow> int64 x = x"
  by (simp add: int64_def int64_range_def)

lemma int64_small:
  "- 9223372036854775808 \<le> x \<Longrightarrow> x < 9223372036854775808 \<Longrightarrow> int64 x = x"
  by (simp add: int64_def)

lemma add_record_amount:
  assumes sz: "\<And>i w s b i' w'. IA i w s = (b, i', w') \<Longrightarrow> bdata b = 0 \<or> bsize b = s"
    and ar: "add_record IA rs N (Stats_i inner n t root tail) w p a =
               (Stats_i inner' n' t' root' tail', w')"
    and app: "N \<le> n \<or> n' \<noteq> n"
  shows "amount (record_at w' tail') = int64 (rs + a)
       \<and> request_address (record_at w' tail') = p
       \<and> t' = int64 (t + int64 (rs + a))"
proof (cases "N \<le> n")
  case True
  with ar show ?thesis by (auto simp: Let_def)
next
  case False
  obtain b1 in1 w1 where a: "IA inner w rs = (b1, in1, w1)"
    by (cases "IA inner w rs") auto
  show ?thesis
  proof (cases "Block_empty b1")
    case True
    with ar False a app show ?thesis by simp
  next
    case ne: False
    with sz[OF a] have "bsize b1 = rs" by (simp add: Block_empty_def)
    with ar False a ne show ?thesis by (auto simp: Let_def)
  qed
qed

subsection \<open>The static member of a Shared_allocator\<close>




subsection \<open>A crash is final\<close>

text \<open>No member function clears \<open>crashed\<close>.\<close>

lemma add_record_crashed:
  assumes "\<And>i w s. crashed w \<Longrightarrow> crashed (snd (snd (IA i w s)))"
    and "crashed w"
  shows "crashed (snd (add_record IA rs N i w p a))"
  using assms(2) assms(1)[OF assms(2)]
  by (cases i) (simp_all add: Let_def case_prod_beta)

lemma allocate_crashed:
  "crashed w \<Longrightarrow> crashed (snd (snd (allocate rs P i w s)))"
proof (induction P arbitrary: i w s)
  case Malloc_allocator
  then show ?case
    by (cases i) (simp_all add: std_malloc_def case_prod_beta split: list.splits)
next
  case (Stack_allocator Size)
  then show ?case by (cases i) (simp_all add: Let_def)
next
  case (Fallback_allocator P F)
  then show ?case by (cases i) (simp_all add: case_prod_beta)
next
  case (Free_list_allocator I Min_size Max_size Max_list_size)
  then show ?case by (cases i) (simp_all add: case_prod_beta)
next
  case (Stats_allocator I N)
  note ar = add_record_crashed[of "allocate rs I", OF Stats_allocator.IH]
  from Stats_allocator.prems show ?case
    by (cases i) (simp_all add: case_prod_beta Stats_allocator.IH ar del: add_record.simps)
next
  case (Shared_allocator I ident)
  then show ?case by (cases i) (simp_all add: case_prod_beta)
qed

lemma deallocate_crashed:
  "crashed w \<Longrightarrow> crashed (snd (snd (deallocate rs P i w b)))"
proof (induction P arbitrary: i w b)
  case Malloc_allocator
  then show ?case by (cases i) (simp_all add: std_free_def)
next
  case (Stack_allocator Size)
  then show ?case by (cases i) simp_all
next
  case (Fallback_allocator P F)
  then show ?case by (cases i) (simp_all add: case_prod_beta)
next
  case (Free_list_allocator I Min_size Max_size Max_list_size)
  then show ?case by (cases i) (simp_all add: case_prod_beta Let_def)
next
  case (Stats_allocator I N)
  note ar = add_record_crashed[of "allocate rs I", OF allocate_crashed]
  from Stats_allocator.prems show ?case
    by (cases i)
      (simp_all add: case_prod_beta Let_def Stats_allocator.IH ar del: add_record.simps)
next
  case (Shared_allocator I ident)
  then show ?case by (cases i) (simp_all add: case_prod_beta)
qed

subsection \<open>Inert Blocks\<close>






subsection \<open>The static members are apart\<close>

text \<open>
  In the initial world the arena buffers of two different static members do not
  overlap.
\<close>

lemma policy_code_inj: "policy_code P = policy_code Q \<Longrightarrow> P = Q"
proof (induction P arbitrary: Q)
  case Malloc_allocator
  then show ?case by (cases Q) auto
next
  case (Stack_allocator Size)
  then show ?case by (cases Q) (auto simp: int_encode_eq, presburger+)
next
  case (Fallback_allocator P F)
  then show ?case by (cases Q) (auto, presburger+)
next
  case (Free_list_allocator I Min_size Max_size Max_list_size)
  then show ?case by (cases Q) (auto simp: int_encode_eq, presburger+)
next
  case (Stats_allocator I N)
  then show ?case by (cases Q) (auto simp: int_encode_eq, presburger+)
next
  case (Shared_allocator I ident)
  then show ?case by (cases Q) (auto simp: int_encode_eq, presburger+)
qed

lemma key_code_inj: "key_code k = key_code k' \<Longrightarrow> k = k'"
  by (cases k; cases k') (auto simp: key_code_def int_encode_eq dest: policy_code_inj)

lemma sum_le_prod_encode: "m + n \<le> prod_encode (m, n)"
proof -
  have "k \<le> triangle k" for k
    by (induction k) (simp_all add: triangle_Suc)
  then have "m + n \<le> triangle (m + n)" .
  then show ?thesis by (simp add: prod_encode_def)
qed

lemma le_int_encode: "i \<le> int (int_encode i)"
  by (simp add: int_encode_def sum_encode_def)

lemma extent_le_policy_code: "extent P \<le> int (policy_code P)"
proof (induction P)
  case (Stack_allocator Size)
  then show ?case using le_int_encode[of Size] by simp
next
  case (Fallback_allocator P F)
  then show ?case using sum_le_prod_encode[of "policy_code P" "policy_code F"] by simp
next
  case (Free_list_allocator I Min_size Max_size Max_list_size)
  then show ?case
    using le_prod_encode_1[of "policy_code I"
        "prod_encode (int_encode Min_size, prod_encode (int_encode Max_size, int_encode Max_list_size))"]
    by simp
next
  case (Stats_allocator I N)
  then show ?case using le_prod_encode_1[of "policy_code I" "int_encode N"] by simp
qed simp_all

lemma extent_le_key_code: "extent (fst k) \<le> int (key_code k)"
  using extent_le_policy_code[of "fst k"] le_prod_encode_1[of "policy_code (fst k)" "int_encode (snd k)"]
  by (simp add: key_code_def)

lemma static_base_step:
  assumes "key_code k < key_code k'"
  shows "static_base k + extent (fst k) \<le> static_base k'"
proof -
  let ?c = "key_code k" and ?c' = "key_code k'"
  from assms have "?c + 1 \<le> ?c'" by simp
  then have "(?c + 1) * (?c + 2) \<le> ?c' * (?c' + 1)"
    by (intro mult_le_mono) simp_all
  moreover have "?c * (?c + 1) + ?c \<le> (?c + 1) * (?c + 2)"
    by (simp add: algebra_simps)
  ultimately have "?c * (?c + 1) + ?c \<le> ?c' * (?c' + 1)" by linarith
  then have "int (?c * (?c + 1)) + int ?c \<le> int (?c' * (?c' + 1))"
    by (metis of_nat_add of_nat_le_iff)
  with extent_le_key_code[of k] show ?thesis
    unfolding static_base_def by linarith
qed

lemma static_members_disjoint:
  "k \<noteq> k' \<Longrightarrow>
   static_base k + extent (fst k) \<le> static_base k' \<or> static_base k' + extent (fst k') \<le> static_base k"
proof -
  assume "k \<noteq> k'"
  then have "key_code k \<noteq> key_code k'" using key_code_inj by blast
  then consider "key_code k < key_code k'" | "key_code k' < key_code k" by linarith
  then show ?thesis by cases (auto dest: static_base_step)
qed

subsection \<open>Runs\<close>

text \<open>
  On \<open>Free_list_allocator<Malloc_allocator, 16, 64, 4>\<close>, a Block of size 32 is
  allocated and freed; the next \<open>allocate(48)\<close> returns the same address.
\<close>

lemma free_list_reuses_address:
  "fst (allocate 40 free_list_16_64_4
          (fst (snd (deallocate 40 free_list_16_64_4
                       (fst (snd (allocate 40 free_list_16_64_4 (create free_list_16_64_4 4096)
                                    (initial_world [1000]) 32)))
                       (snd (snd (allocate 40 free_list_16_64_4 (create free_list_16_64_4 4096)
                                    (initial_world [1000]) 32)))
                       \<lparr>bsize = 32, bdata = 1000\<rparr>)))
          (snd (snd (deallocate 40 free_list_16_64_4
                       (fst (snd (allocate 40 free_list_16_64_4 (create free_list_16_64_4 4096)
                                    (initial_world [1000]) 32)))
                       (snd (snd (allocate 40 free_list_16_64_4 (create free_list_16_64_4 4096)
                                    (initial_world [1000]) 32)))
                       \<lparr>bsize = 32, bdata = 1000\<rparr>)))
          48) = \<lparr>bsize = 48, bdata = 1000\<rparr>"
  by (simp add: free_list_16_64_4_def initial_world_def std_malloc_def Block_default_def)

text \<open>
  On \<open>Stats_allocator<Malloc_allocator, 2>\<close>, three allocations of sizes 10, 20, 30
  leave two records: the third reuses the record of the first without a call to the
  inner allocator, and \<open>total_allocated_\<close> is \<open>50 + 60 + 70\<close>.
\<close>

lemma stats_ring_overwrites_oldest:
  "fst (snd (allocate_each (allocate 40 stats_2) (create stats_2 4096)
           (initial_world [500, 1000, 600, 2000, 700]) [10, 20, 30])) =
     Stats_i Malloc_i 2 180 2000 1000
   \<and> request_address (record_at (snd (snd (allocate_each (allocate 40 stats_2) (create stats_2 4096)
           (initial_world [500, 1000, 600, 2000, 700]) [10, 20, 30]))) 1000) = 700
   \<and> amount (record_at (snd (snd (allocate_each (allocate 40 stats_2) (create stats_2 4096)
           (initial_world [500, 1000, 600, 2000, 700]) [10, 20, 30]))) 1000) = 70
   \<and> heap_trace (snd (snd (allocate_each (allocate 40 stats_2) (create stats_2 4096)
           (initial_world [500, 1000, 600, 2000, 700]) [10, 20, 30]))) =
       [Malloc_call 30 700, Malloc_call 40 2000, Malloc_call 20 600, Malloc_call 40 1000,
        Malloc_call 10 500]"
  by (simp add: stats_2_def initial_world_def std_malloc_def Block_empty_def int64_small)

text \<open>
  The heap policy frees the address of a Block of size 0, which is empty: here the
  address of a Block of 8 bytes that it has handed out before.
\<close>

lemma Malloc_deallocate_zero_size_frees:
  "allocate 40 Malloc_allocator Malloc_i (initial_world [1000]) 8 =
     (\<lparr>bsize = 8, bdata = 1000\<rparr>, Malloc_i,
      (initial_world [])\<lparr>heap_trace := [Malloc_call 8 1000]\<rparr>)
   \<and> Block_empty \<lparr>bsize = 0, bdata = 1000\<rparr>
   \<and> heap_trace (snd (snd (deallocate 40 Malloc_allocator Malloc_i
         ((initial_world [])\<lparr>heap_trace := [Malloc_call 8 1000]\<rparr>) \<lparr>bsize = 0, bdata = 1000\<rparr>))) =
       [Free_call 1000, Malloc_call 8 1000]"
  by (simp add: initial_world_def std_malloc_def std_free_def Block_empty_def)

text \<open>
  With \<open>malloc\<close> failing, \<open>Free_list_allocator<Malloc_allocator, 16, 64, 4>::allocate(32)\<close>
  returns the empty Block \<open>(32, null)\<close>; \<open>deallocate\<close> of that Block writes through the
  null address. So does \<open>deallocate\<close> of the default Block on a free list over that
  free list: the outer one forwards \<open>(64, null)\<close>, which the inner one links.
\<close>

lemma Free_list_deallocate_null_Block_crashes:
  "allocate 40 free_list_16_64_4 (create free_list_16_64_4 4096) (initial_world []) 32 =
     (\<lparr>bsize = 32, bdata = 0\<rparr>, create free_list_16_64_4 4096,
      (initial_world [])\<lparr>heap_trace := [Malloc_call 64 0]\<rparr>)
   \<and> Block_empty \<lparr>bsize = 32, bdata = 0\<rparr>
   \<and> \<not> crashed ((initial_world [])\<lparr>heap_trace := [Malloc_call 64 0]\<rparr>)
   \<and> crashed (snd (snd (deallocate 40 free_list_16_64_4 (create free_list_16_64_4 4096)
         ((initial_world [])\<lparr>heap_trace := [Malloc_call 64 0]\<rparr>) \<lparr>bsize = 32, bdata = 0\<rparr>)))
   \<and> crashed (snd (snd (deallocate 40 (Free_list_allocator free_list_16_64_4 16 64 4)
         (create (Free_list_allocator free_list_16_64_4 16 64 4) 4096) (initial_world [])
         Block_default)))"
  by (simp add: free_list_16_64_4_def initial_world_def std_malloc_def Block_empty_def
      Block_default_def)

section \<open>The claims\<close>

text \<open>
  C1. When the free list of \<open>Free_list_allocator<I, MIN, MAX, MAX_LIST>\<close> already holds
  \<open>MAX_LIST\<close> recycled blocks, a further \<open>deallocate\<close> of a block with a size in
  \<open>[MIN, MAX]\<close> should not grow the list but forward \<open>(MAX, b.addr)\<close> to the inner
  allocator. The run below is the code on \<open>Free_list_allocator<Malloc_allocator, 16, 64, 4>\<close>:
  five Blocks of size 32 are allocated and the first four are freed, which leaves
  \<open>list_size_ = 4 = Max_list_size\<close>. The guard of \<open>deallocate\<close> is
  \<open>list_size_ > Max_list_size\<close>, so freeing the fifth Block links it: the list then holds
  five nodes, and the platform heap has seen the five \<open>malloc\<close> calls and no \<open>free\<close>.
\<close>

theorem Free_list_deallocate_at_Max_list_size:
  "fst free_list_allocated =
     [\<lparr>bsize = 32, bdata = 1000\<rparr>, \<lparr>bsize = 32, bdata = 2000\<rparr>, \<lparr>bsize = 32, bdata = 3000\<rparr>,
      \<lparr>bsize = 32, bdata = 4000\<rparr>, \<lparr>bsize = 32, bdata = 5000\<rparr>]
   \<and> fst free_list_four_freed = Free_list_i Malloc_i 4000 4
   \<and> fst free_list_fifth_freed = Block_default
   \<and> fst (snd free_list_fifth_freed) = Free_list_i Malloc_i 5000 5
   \<and> node_next (snd (snd free_list_fifth_freed)) 5000 = 4000
   \<and> heap_trace (snd (snd free_list_fifth_freed)) =
       [Malloc_call 64 5000, Malloc_call 64 4000, Malloc_call 64 3000, Malloc_call 64 2000,
        Malloc_call 64 1000]"
  by (simp add: free_list_fifth_freed_def free_list_four_freed_def free_list_allocated_def
      free_list_16_64_4_def initial_world_def std_malloc_def Block_default_def)




text \<open>
  C3. In \<open>Stats_allocator<I, N>\<close> every record appended by a successful \<open>allocate\<close>
  should carry a strictly positive amount and every record appended by a \<open>deallocate\<close>
  a strictly negative one. As amended: \<open>add_record\<close> adds the size of a \<open>Record\<close> to
  what it is given, in 64-bit arithmetic. A record appended by a successful
  \<open>allocate\<close> carries the record overhead plus the Block's size, which is strictly
  positive, when that sum is in the 64-bit range. A record appended by a \<open>deallocate\<close>
  carries the 64-bit value of the record overhead plus the 64-bit value of the
  negated size; when the negated size and the difference are in the 64-bit range,
  that is the record overhead minus the Block's size, which is strictly negative
  exactly when the Block is larger than a \<open>Record\<close>. A record is appended when the
  chain is full (\<open>N \<le> number_of_records_\<close>, the oldest record is reused) or when
  \<open>number_of_records_\<close> has changed; it is the one at \<open>tail_\<close>. The statement is about
  the runs that do not crash.
\<close>

theorem Stats_record_amount:
  "(valid I \<and> 0 < rs \<and> int64_range (rs + bsize b)
     \<and> allocate rs (Stats_allocator I N) (Stats_i inner n t root tail) w s =
         (b, Stats_i inner' n' t' root' tail', w')
     \<and> \<not> Block_empty b \<and> \<not> crashed w' \<and> (N \<le> n \<or> n' \<noteq> n) \<longrightarrow>
       amount (record_at w' tail') = rs + bsize b \<and> 0 < amount (record_at w' tail'))
   \<and> (deallocate rs (Stats_allocator I N) (Stats_i inner n t root tail) w b =
         (b', Stats_i inner' n' t' root' tail', w')
     \<and> \<not> crashed w' \<and> (N \<le> n \<or> n' \<noteq> n) \<longrightarrow>
       amount (record_at w' tail') = int64 (rs + int64 (- bsize b))
       \<and> (int64_range (- bsize b) \<and> int64_range (rs - bsize b) \<longrightarrow>
            amount (record_at w' tail') = rs - bsize b
            \<and> (amount (record_at w' tail') < 0 \<longleftrightarrow> rs < bsize b)))"
proof (intro conjI impI; elim conjE)
  assume v: "valid I" and rs: "0 < rs" and rg: "int64_range (rs + bsize b)"
    and al: "allocate rs (Stats_allocator I N) (Stats_i inner n t root tail) w s =
         (b, Stats_i inner' n' t' root' tail', w')"
    and ne: "\<not> Block_empty b" and app: "N \<le> n \<or> n' \<noteq> n"
  obtain b0 in0 w0 where a: "allocate rs I inner w s = (b0, in0, w0)"
    by (cases "allocate rs I inner w s") auto
  from al ne a have b0: "b0 = b" and ne0: "\<not> Block_empty b0"
    by (auto simp del: add_record.simps split: if_splits prod.splits)
  from al a ne0 b0
  have ar: "add_record (allocate rs I) rs N (Stats_i in0 n t root tail) w0 (bdata b) (bsize b) =
      (Stats_i inner' n' t' root' tail', w')"
    by (auto simp del: add_record.simps split: prod.splits)
  from add_record_amount[OF allocate_size ar app] int64_id[OF rg]
  have am: "amount (record_at w' tail') = rs + bsize b" by simp
  from ne have nz: "bdata b \<noteq> 0" "bsize b \<noteq> 0" by (simp_all add: Block_empty_def)
  with allocate_size[OF a] b0 have "bsize b = s" by simp
  moreover have "0 < s"
  proof (rule ccontr)
    assume "\<not> 0 < s"
    then have "s \<le> 0" by simp
    from allocate_nonpos[OF v this a] nz b0 show False by simp
  qed
  ultimately show "amount (record_at w' tail') = rs + bsize b" "0 < amount (record_at w' tail')"
    using am rs by simp_all
next
  assume de: "deallocate rs (Stats_allocator I N) (Stats_i inner n t root tail) w b =
         (b', Stats_i inner' n' t' root' tail', w')"
    and app: "N \<le> n \<or> n' \<noteq> n"
  obtain b0 in0 w0 where d: "deallocate rs I inner w b = (b0, in0, w0)"
    by (cases "deallocate rs I inner w b") auto
  from deallocate_empties[OF d] have e: "Block_empty b0"
    by (simp add: Block_empty_def Block_default_def)
  from de d e
  have ar: "add_record (allocate rs I) rs N (Stats_i in0 n t root tail) w0 (bdata b)
              (int64 (- bsize b)) = (Stats_i inner' n' t' root' tail', w')"
    by (auto simp del: add_record.simps split: prod.splits)
  from add_record_amount[OF allocate_size ar app]
  show am: "amount (record_at w' tail') = int64 (rs + int64 (- bsize b))" by simp
  assume r1: "int64_range (- bsize b)" and r2: "int64_range (rs - bsize b)"
  from am int64_id[OF r1] r2 have "amount (record_at w' tail') = rs - bsize b"
    by (simp add: int64_id)
  then show "amount (record_at w' tail') = rs - bsize b"
    "(amount (record_at w' tail') < 0) = (rs < bsize b)" by simp_all
qed

theorem Stats_record_amount_witness:
  "fst (stats_allocated 64) = \<lparr>bsize = 64, bdata = 500\<rparr>
   \<and> fst (snd (stats_allocated 64)) = Stats_i Malloc_i 1 104 1000 1000
   \<and> amount (record_at (snd (snd (stats_allocated 64))) 1000) = 104
   \<and> fst (snd (stats_deallocated 64)) = Stats_i Malloc_i 2 80 1000 2000
   \<and> amount (record_at (snd (snd (stats_deallocated 64))) 2000) = - 24"
proof -
  have a: "allocate 40 (Stats_allocator Malloc_allocator 2) (Stats_i Malloc_i 0 0 0 0)
             (initial_world [500, 1000, 2000]) 64 =
           (\<lparr>bsize = 64, bdata = 500\<rparr>, Stats_i Malloc_i 1 104 1000 1000,
            snd (snd (stats_allocated 64)))"
    by (simp add: stats_allocated_def stats_2_def initial_world_def std_malloc_def
        Block_empty_def int64_small)
  have d: "deallocate 40 (Stats_allocator Malloc_allocator 2) (Stats_i Malloc_i 1 104 1000 1000)
             (snd (snd (stats_allocated 64))) \<lparr>bsize = 64, bdata = 500\<rparr> =
           (Block_default, Stats_i Malloc_i 2 80 1000 2000, snd (snd (stats_deallocated 64)))"
    by (simp add: stats_deallocated_def stats_allocated_def stats_2_def initial_world_def
        std_malloc_def std_free_def Block_empty_def Block_default_def int64_small)
  have e: "\<not> Block_empty \<lparr>bsize = 64, bdata = 500\<rparr>"
    by (simp add: Block_empty_def)
  have c: "\<not> crashed (snd (snd (stats_allocated 64)))"
    "\<not> crashed (snd (snd (stats_deallocated 64)))"
    by (simp_all add: stats_deallocated_def stats_allocated_def stats_2_def initial_world_def
        std_malloc_def std_free_def Block_empty_def Block_default_def int64_small)
  have r: "int64_range (40 + bsize \<lparr>bsize = 64, bdata = 500\<rparr>)"
    "int64_range (- bsize \<lparr>bsize = 64, bdata = 500\<rparr>)"
    "int64_range (40 - bsize \<lparr>bsize = 64, bdata = 500\<rparr>)"
    by (simp_all add: int64_range_def)
  have v: "valid Malloc_allocator" "(0::int) < 40" by simp_all
  have g: "(2::int) \<le> 0 \<or> (1::int) \<noteq> 0" "(2::int) \<le> 1 \<or> (2::int) \<noteq> 1" by simp_all
  from Stats_record_amount[where I = Malloc_allocator and rs = 40 and N = 2 and inner = Malloc_i
      and n = 0 and t = 0 and root = 0 and tail = 0 and w = "initial_world [500, 1000, 2000]"
      and s = 64 and b = "\<lparr>bsize = 64, bdata = 500\<rparr>" and inner' = Malloc_i and n' = 1
      and t' = 104 and root' = 1000 and tail' = 1000 and w' = "snd (snd (stats_allocated 64))"
      and b' = Block_default]
    v a e c(1) g(1) r(1)
  have "amount (record_at (snd (snd (stats_allocated 64))) 1000) = 40 + bsize \<lparr>bsize = 64, bdata = 500\<rparr>"
    by blast
  then have 1: "amount (record_at (snd (snd (stats_allocated 64))) 1000) = 104" by simp
  from Stats_record_amount[where I = Malloc_allocator and rs = 40 and N = 2 and inner = Malloc_i
      and n = 1 and t = 104 and root = 1000 and tail = 1000
      and w = "snd (snd (stats_allocated 64))" and s = 64
      and b = "\<lparr>bsize = 64, bdata = 500\<rparr>" and inner' = Malloc_i and n' = 2
      and t' = 80 and root' = 1000 and tail' = 2000 and w' = "snd (snd (stats_deallocated 64))"
      and b' = Block_default]
    d c(2) g(2) r(2,3)
  have "amount (record_at (snd (snd (stats_deallocated 64))) 2000) =
          40 - bsize \<lparr>bsize = 64, bdata = 500\<rparr>"
    by blast
  then have 2: "amount (record_at (snd (snd (stats_deallocated 64))) 2000) = - 24"
    by simp
  have f: "fst (stats_allocated 64) = \<lparr>bsize = 64, bdata = 500\<rparr>
      \<and> fst (snd (stats_allocated 64)) = Stats_i Malloc_i 1 104 1000 1000
      \<and> fst (snd (stats_deallocated 64)) = Stats_i Malloc_i 2 80 1000 2000"
    by (simp add: stats_deallocated_def stats_allocated_def stats_2_def initial_world_def
        std_malloc_def std_free_def Block_empty_def Block_default_def int64_small)
  from f 1 2 show ?thesis by simp
qed

text \<open>
  The run that C3 as first stated fails on: \<open>Stats_allocator<Malloc_allocator, 2>\<close>
  allocates a Block of size 10 and frees it. The record of the \<open>deallocate\<close> carries
  the amount \<open>40 - 10 = 30\<close>, which is not negative.
\<close>

theorem Stats_deallocate_amount_not_negative:
  "fst (stats_allocated 10) = \<lparr>bsize = 10, bdata = 500\<rparr>
   \<and> fst (snd (stats_allocated 10)) = Stats_i Malloc_i 1 50 1000 1000
   \<and> fst (snd (stats_deallocated 10)) = Stats_i Malloc_i 2 80 1000 2000
   \<and> request_address (record_at (snd (snd (stats_deallocated 10))) 2000) = 500
   \<and> amount (record_at (snd (snd (stats_deallocated 10))) 2000) = 30
   \<and> \<not> amount (record_at (snd (snd (stats_deallocated 10))) 2000) < 0"
  by (simp add: stats_deallocated_def stats_allocated_def stats_2_def initial_world_def
      std_malloc_def std_free_def Block_empty_def Block_default_def int64_small)


text \<open>
  C4. The front-door \<open>allocate(alloc, size)\<close>, for the member function \<open>f\<close> of any
  allocator class: the error is \<open>invalid_size\<close> iff \<open>size < 0\<close>; for \<open>size = 0\<close> the
  result is the default (empty) Block and neither the allocator nor the world has
  changed, whatever \<open>f\<close> would have done; the error is \<open>unknown\<close> iff \<open>size > 0\<close> and
  \<open>f\<close> returned an empty Block; otherwise the result is the Block \<open>f\<close> returned, with
  the allocator and the world as \<open>f\<close> left them.
\<close>

theorem details_allocate_result:
  "(fst (details_allocate f a w sz) = Inl invalid_size \<longleftrightarrow> sz < 0)
   \<and> (sz = 0 \<longrightarrow> details_allocate f a w sz = (Inr Block_default, a, w) \<and> Block_empty Block_default)
   \<and> (fst (details_allocate f a w sz) = Inl unknown \<longleftrightarrow> 0 < sz \<and> Block_empty (fst (f a w sz)))
   \<and> (0 < sz \<and> \<not> Block_empty (fst (f a w sz)) \<longrightarrow>
        details_allocate f a w sz = (Inr (fst (f a w sz)), snd (f a w sz)))"
  by (auto simp: details_allocate_def Block_empty_def Block_default_def case_prod_beta)

theorem details_allocate_result_witness:
  "details_allocate (allocate 40 fallback_16) (create fallback_16 4096) (initial_world [1000]) 0 =
     (Inr Block_default, create fallback_16 4096, initial_world [1000])
   \<and> \<not> Block_empty (fst (allocate 40 fallback_16 (create fallback_16 4096) (initial_world [1000]) 3))
   \<and> details_allocate (allocate 40 fallback_16) (create fallback_16 4096) (initial_world [1000]) 3 =
     (Inr \<lparr>bsize = 3, bdata = 4096\<rparr>, Fallback_i (Stack_i 4096 4100) Malloc_i, initial_world [1000])
   \<and> fst (details_allocate (allocate 40 fallback_16) (create fallback_16 4096) (initial_world []) 32)
       = Inl unknown
   \<and> fst (details_allocate (allocate 40 fallback_16) (create fallback_16 4096) (initial_world [])
            (- 1)) = Inl invalid_size"
  using details_allocate_result[of "allocate 40 fallback_16" "create fallback_16 4096"
      "initial_world [1000]" 0]
    details_allocate_result[of "allocate 40 fallback_16" "create fallback_16 4096"
      "initial_world [1000]" 3]
    details_allocate_result[of "allocate 40 fallback_16" "create fallback_16 4096"
      "initial_world []" 32]
    details_allocate_result[of "allocate 40 fallback_16" "create fallback_16 4096"
      "initial_world []" "- 1"]
  by (simp add: fallback_16_def Stack_allocator_default_def align_def Block_empty_def
      Block_default_def std_malloc_def initial_world_def)

text \<open>
  C5. Round trip, for every policy of the toolkit whose object and world satisfy the
  invariant: for every \<open>s > 0\<close>, if \<open>allocate(s)\<close> returns a non-empty Block \<open>b\<close>, then
  \<open>owns(b)\<close> is true on the allocator as \<open>allocate\<close> left it, and \<open>deallocate(&b)\<close>
  leaves the caller's Block empty.
\<close>

theorem round_trip:
  assumes "valid P" and "wf_inst P i" and "wf_world w" and "0 < s"
    and "allocate rs P i w s = (b, i', w')" and "\<not> Block_empty b"
  shows "owns P i' w' b \<and> Block_empty (fst (deallocate rs P i' w' b))"
proof -
  from allocate_owns[OF assms(1-4), of rs] assms(5,6) have "owns P i' w' b" by simp
  moreover have "fst (deallocate rs P i' w' b) = Block_default"
    by (cases "deallocate rs P i' w' b") (auto dest: deallocate_empties)
  ultimately show ?thesis by (simp add: Block_empty_def Block_default_def)
qed

theorem round_trip_witness:
  "fst (allocate 40 layered (create layered 4096) (initial_world [1000, 2000]) 20) =
     \<lparr>bsize = 20, bdata = 1000\<rparr>
   \<and> owns layered
       (fst (snd (allocate 40 layered (create layered 4096) (initial_world [1000, 2000]) 20)))
       (snd (snd (allocate 40 layered (create layered 4096) (initial_world [1000, 2000]) 20)))
       \<lparr>bsize = 20, bdata = 1000\<rparr>
   \<and> Block_empty (fst (deallocate 40 layered
       (fst (snd (allocate 40 layered (create layered 4096) (initial_world [1000, 2000]) 20)))
       (snd (snd (allocate 40 layered (create layered 4096) (initial_world [1000, 2000]) 20)))
       \<lparr>bsize = 20, bdata = 1000\<rparr>))"
proof -
  let ?r = "allocate 40 layered (create layered 4096) (initial_world [1000, 2000]) 20"
  have v: "valid layered" by (simp add: layered_def)
  have wi: "wf_inst layered (create layered 4096)"
    by (simp add: layered_def Stack_allocator_default_def)
  have b: "fst ?r = \<lparr>bsize = 20, bdata = 1000\<rparr>"
    by (simp add: layered_def Stack_allocator_default_def initial_world_def align_def
        Block_empty_def std_malloc_def Let_def)
  have ne: "\<not> Block_empty \<lparr>bsize = 20, bdata = 1000\<rparr>" by (simp add: Block_empty_def)
  have a: "?r = (\<lparr>bsize = 20, bdata = 1000\<rparr>, fst (snd ?r), snd (snd ?r))"
    using b by (cases ?r) simp
  have pos: "(0::int) < 20" by simp
  from round_trip[OF v wi wf_initial_world pos a ne] b show ?thesis by simp
qed

text \<open>
  C6. \<open>Stack_allocator::allocate(s)\<close> rounds \<open>s\<close> up to the next multiple of two: when
  the request fits, the Block has size \<open>s\<close> and the address of the old bump pointer,
  and the bump pointer advances by \<open>align s\<close>, the least even number not below \<open>s\<close>.
  On a fresh \<open>Stack_allocator<16>\<close>, \<open>allocate(3)\<close> returns a Block of size 3 and
  advances the bump pointer by 4.
\<close>

theorem Stack_allocate_aligned:
  "(p + align s \<le> d + Size \<and> p \<noteq> 0 \<and> 0 < s \<longrightarrow>
      allocate rs (Stack_allocator Size) (Stack_i d p) w s =
        (\<lparr>bsize = s, bdata = p\<rparr>, Stack_i d (p + align s), w))
   \<and> align s mod 2 = 0 \<and> s \<le> align s \<and> align s < s + 2
   \<and> (d \<noteq> 0 \<longrightarrow>
      allocate rs (Stack_allocator 16) (Stack_allocator_default d) w 3 =
        (\<lparr>bsize = 3, bdata = d\<rparr>, Stack_i d (d + 4), w))"
  by (auto simp: align_def Stack_allocator_default_def Let_def) presburger+

theorem Stack_allocate_aligned_witness:
  "allocate 40 (Stack_allocator 16) (Stack_i 4096 4100) (initial_world []) 5 =
     (\<lparr>bsize = 5, bdata = 4100\<rparr>, Stack_i 4096 4106, initial_world [])
   \<and> allocate 40 (Stack_allocator 16) (Stack_allocator_default 4096) (initial_world []) 3 =
     (\<lparr>bsize = 3, bdata = 4096\<rparr>, Stack_i 4096 4100, initial_world [])"
  using Stack_allocate_aligned[of 4100 5 4096 16 40 "initial_world []"]
    Stack_allocate_aligned[of 4096 3 4096 16 40 "initial_world []"]
  by (simp add: align_def)

text \<open>
  C7. \<open>Fallback_allocator<P, F>::allocate(s)\<close> returns the Block of \<open>P\<close> whenever that
  is not empty, and \<open>F\<close> is not touched then; otherwise it returns what \<open>F::allocate(s)\<close>
  returns (in the world as \<open>P\<close> left it). Its \<open>deallocate(&b)\<close> is \<open>P::deallocate(b)\<close>
  exactly when \<open>P::owns(b)\<close>, and \<open>F::deallocate(b)\<close> otherwise.
\<close>

theorem Fallback_routing:
  "(\<not> Block_empty (fst (allocate rs P pr w s)) \<longrightarrow>
      allocate rs (Fallback_allocator P F) (Fallback_i pr fb) w s =
        (fst (allocate rs P pr w s), Fallback_i (fst (snd (allocate rs P pr w s))) fb,
         snd (snd (allocate rs P pr w s))))
   \<and> (Block_empty (fst (allocate rs P pr w s)) \<longrightarrow>
      allocate rs (Fallback_allocator P F) (Fallback_i pr fb) w s =
        (fst (allocate rs F fb (snd (snd (allocate rs P pr w s))) s),
         Fallback_i (fst (snd (allocate rs P pr w s)))
           (fst (snd (allocate rs F fb (snd (snd (allocate rs P pr w s))) s))),
         snd (snd (allocate rs F fb (snd (snd (allocate rs P pr w s))) s))))
   \<and> (owns P pr w b \<longrightarrow>
      deallocate rs (Fallback_allocator P F) (Fallback_i pr fb) w b =
        (fst (deallocate rs P pr w b), Fallback_i (fst (snd (deallocate rs P pr w b))) fb,
         snd (snd (deallocate rs P pr w b))))
   \<and> (\<not> owns P pr w b \<longrightarrow>
      deallocate rs (Fallback_allocator P F) (Fallback_i pr fb) w b =
        (fst (deallocate rs F fb w b), Fallback_i pr (fst (snd (deallocate rs F fb w b))),
         snd (snd (deallocate rs F fb w b))))"
  by (simp add: case_prod_beta)

theorem Fallback_routing_witness:
  "allocate 40 fallback_16 (Fallback_i (Stack_i 4096 4096) Malloc_i) (initial_world [1000]) 3 =
     (\<lparr>bsize = 3, bdata = 4096\<rparr>, Fallback_i (Stack_i 4096 4100) Malloc_i, initial_world [1000])
   \<and> fst (allocate 40 fallback_16 (Fallback_i (Stack_i 4096 4096) Malloc_i) (initial_world [1000]) 32)
       = \<lparr>bsize = 32, bdata = 1000\<rparr>
   \<and> owns (Stack_allocator 16) (Stack_i 4096 4100) (initial_world []) \<lparr>bsize = 3, bdata = 4096\<rparr>
   \<and> deallocate 40 fallback_16 (Fallback_i (Stack_i 4096 4100) Malloc_i) (initial_world [])
       \<lparr>bsize = 3, bdata = 4096\<rparr> =
     (Block_default, Fallback_i (Stack_i 4096 4096) Malloc_i, initial_world [])
   \<and> heap_trace (snd (snd (deallocate 40 fallback_16 (Fallback_i (Stack_i 4096 4100) Malloc_i)
       (initial_world []) \<lparr>bsize = 32, bdata = 1000\<rparr>))) = [Free_call 1000]"
  using Fallback_routing[of 40 "Stack_allocator 16" "Stack_i 4096 4096" "initial_world [1000]" 3
      Malloc_allocator Malloc_i "\<lparr>bsize = 3, bdata = 4096\<rparr>"]
    Fallback_routing[of 40 "Stack_allocator 16" "Stack_i 4096 4096" "initial_world [1000]" 32
      Malloc_allocator Malloc_i "\<lparr>bsize = 32, bdata = 1000\<rparr>"]
    Fallback_routing[of 40 "Stack_allocator 16" "Stack_i 4096 4100" "initial_world []" 3
      Malloc_allocator Malloc_i "\<lparr>bsize = 3, bdata = 4096\<rparr>"]
    Fallback_routing[of 40 "Stack_allocator 16" "Stack_i 4096 4100" "initial_world []" 3
      Malloc_allocator Malloc_i "\<lparr>bsize = 32, bdata = 1000\<rparr>"]
  by (simp add: fallback_16_def align_def Block_empty_def Block_default_def std_malloc_def
      std_free_def initial_world_def)

text \<open>
  C8. Copying a \<open>Stack_allocator\<close> from another object, by the copy constructor or
  by copy assignment, leaves the copy as a default-constructed arena at its own
  address (\<open>p_ = d_\<close>); as the buffers of two objects do not overlap, no Block is
  owned by both. Moving from another object does the same to the destination and
  sets the source's \<open>p_\<close> to null, after which every \<open>allocate\<close> of a sequence of
  requests on the source returns the default (empty) Block and leaves the source as
  it is. (\<open>d \<noteq> d'\<close>: the two objects are distinct; both assignments return at once
  when \<open>this == &other\<close>.)
\<close>

theorem Stack_copy_move:
  "Stack_allocator_copy d (Stack_i d' p') = Stack_allocator_default d
   \<and> (d \<noteq> d' \<longrightarrow>
        Stack_allocator_copy_assign (Stack_i d p) (Stack_i d' p') = Stack_allocator_default d)
   \<and> (d + Size \<le> d' \<or> d' + Size \<le> d \<longrightarrow>
        \<not> (Stack_allocator_owns Size (Stack_allocator_default d) w b
           \<and> Stack_allocator_owns Size (Stack_i d' p') w b))
   \<and> Stack_allocator_move d (Stack_i d' p') = (Stack_allocator_default d, Stack_i d' 0)
   \<and> (d \<noteq> d' \<longrightarrow>
        Stack_allocator_move_assign (Stack_i d p) (Stack_i d' p') =
          (Stack_allocator_default d, Stack_i d' 0))
   \<and> allocate_each (allocate rs (Stack_allocator Size)) (Stack_i d' 0) w ss =
        (replicate (length ss) Block_default, Stack_i d' 0, w)
   \<and> Block_empty Block_default"
  by (auto simp: Stack_allocator_copy_def Stack_allocator_default_def moved_from_allocate_each
      Block_empty_def Block_default_def)

theorem Stack_copy_move_witness:
  "Stack_allocator_copy_assign (Stack_i 8192 8200) (Stack_i 4096 4100) = Stack_i 8192 8192
   \<and> Stack_allocator_owns 16 (Stack_i 4096 4100) (initial_world []) \<lparr>bsize = 3, bdata = 4096\<rparr>
   \<and> \<not> Stack_allocator_owns 16 (Stack_i 8192 8192) (initial_world []) \<lparr>bsize = 3, bdata = 4096\<rparr>
   \<and> Stack_allocator_move_assign (Stack_i 8192 8200) (Stack_i 4096 4100) =
       (Stack_i 8192 8192, Stack_i 4096 0)
   \<and> allocate_each (allocate 40 (Stack_allocator 16)) (Stack_i 4096 0) (initial_world []) [3, 8, 1] =
       ([Block_default, Block_default, Block_default], Stack_i 4096 0, initial_world [])"
  using Stack_copy_move[of 8192 4096 4100 8200 16 "initial_world []" "\<lparr>bsize = 3, bdata = 4096\<rparr>"
      40 "[3, 8, 1]"]
  by (simp add: Stack_allocator_default_def)

text \<open>
  C9. \<open>Free_list_allocator<I, MIN, MAX, MAX_LIST>::owns(b)\<close> is true for every Block
  whose size lies in \<open>[MIN, MAX]\<close>, whatever its address, the state of the free list,
  the inner allocator and the world are.
\<close>

theorem Free_list_owns_in_range:
  "Min_size \<le> bsize b \<Longrightarrow> bsize b \<le> Max_size \<Longrightarrow>
   owns (Free_list_allocator I Min_size Max_size Max_list_size) (Free_list_i inner root list_size)
     w b"
  by simp

theorem Free_list_owns_in_range_witness:
  "\<not> owns (Stack_allocator 16) (Stack_allocator_default 4096) (initial_world [])
       \<lparr>bsize = 32, bdata = 77777\<rparr>
   \<and> owns (Free_list_allocator (Stack_allocator 16) 16 64 4)
       (create (Free_list_allocator (Stack_allocator 16) 16 64 4) 4096) (initial_world [])
       \<lparr>bsize = 32, bdata = 77777\<rparr>"
  using Free_list_owns_in_range[of 16 "\<lparr>bsize = 32, bdata = 77777\<rparr>" 64 "Stack_allocator 16" 4
      "Stack_allocator_default 4096" 0 0 "initial_world []"]
  by (simp add: Stack_allocator_default_def)

text \<open>
  C10. \<open>Malloc_allocator::allocate(s)\<close> with \<open>s \<le> 0\<close> returns the Block \<open>(s, null)\<close>
  without a call to the platform heap: the Block is empty because its address is
  null, and its size is the requested \<open>s\<close>, which is negative for a negative request.
\<close>

theorem Malloc_allocate_nonpositive:
  "s \<le> 0 \<Longrightarrow>
   allocate rs Malloc_allocator Malloc_i w s = (\<lparr>bsize = s, bdata = 0\<rparr>, Malloc_i, w)
   \<and> Block_empty \<lparr>bsize = s, bdata = 0\<rparr> \<and> bsize (fst (allocate rs Malloc_allocator Malloc_i w s)) = s"
  by (simp add: Block_empty_def)

theorem Malloc_allocate_nonpositive_witness:
  "allocate 40 Malloc_allocator Malloc_i (initial_world [1000]) (- 5) =
     (\<lparr>bsize = - 5, bdata = 0\<rparr>, Malloc_i, initial_world [1000])
   \<and> Block_empty \<lparr>bsize = - 5, bdata = 0\<rparr>
   \<and> bsize (fst (allocate 40 Malloc_allocator Malloc_i (initial_world [1000]) (- 5))) < 0"
  using Malloc_allocate_nonpositive[of "- 5" 40 "initial_world [1000]"]
  by simp

end
